theory Spec2Isabelle
  imports Main
begin

section \<open>JavaScript values and string primitives used by the server\<close>

text \<open>
  The path authorization engine of \<^verbatim>\<open>src/server.js\<close> works on JavaScript strings.
  A string is modelled as a \<^typ>\<open>string\<close>; a template literal
  \<^verbatim>\<open>`users/students/${uid}/`\<close> is the concatenation
  \<open>''users/students/'' @ uid @ ''/''\<close>.
\<close>

text \<open>\<^verbatim>\<open>String.prototype.startsWith\<close> at position 0: \<open>startsWith s p\<close> is \<^verbatim>\<open>s.startsWith(p)\<close>.\<close>

fun startsWith :: "string \<Rightarrow> string \<Rightarrow> bool" where
  "startsWith s [] = True"
| "startsWith [] (c # p) = False"
| "startsWith (d # s) (c # p) = (d = c \<and> startsWith s p)"

text \<open>\<^verbatim>\<open>String.prototype.includes\<close>: \<open>includes_str s u\<close> is \<^verbatim>\<open>s.includes(u)\<close>, a search for
  \<open>u\<close> at every position of \<open>s\<close>.\<close>

fun includes_str :: "string \<Rightarrow> string \<Rightarrow> bool" where
  "includes_str [] u = startsWith [] u"
| "includes_str (c # s) u = (startsWith (c # s) u \<or> includes_str s u)"

text \<open>\<^verbatim>\<open>Array.prototype.some\<close>: \<open>some xs f\<close> is \<^verbatim>\<open>xs.some(f)\<close>.\<close>

fun some :: "'a list \<Rightarrow> ('a \<Rightarrow> bool) \<Rightarrow> bool" where
  "some [] f = False"
| "some (x # xs) f = (f x \<or> some xs f)"

text \<open>The only exception the engine can raise.\<close>

datatype js_error = TypeError

section \<open>The path authorization engine\<close>

text \<open>
  What a property read \<^verbatim>\<open>baseByRole[role]\<close> on the object literal yields: nothing, one of
  the five prefix arrays of the literal, or a member inherited from
  \<^verbatim>\<open>Object.prototype\<close> (a function, or for \<^verbatim>\<open>__proto__\<close> the prototype object itself),
  which is truthy and not iterable.
\<close>

datatype property = Undefined | PrefixArray "string list" | Inherited

text \<open>The property names every object literal inherits from \<^verbatim>\<open>Object.prototype\<close>.\<close>

definition objectPrototypeKeys :: "string list" where
  "objectPrototypeKeys =
     [''constructor'', ''__proto__'', ''hasOwnProperty'', ''isPrototypeOf'',
      ''propertyIsEnumerable'', ''toLocaleString'', ''toString'', ''valueOf'',
      ''__defineGetter__'', ''__defineSetter__'', ''__lookupGetter__'',
      ''__lookupSetter__'']"

text \<open>The table \<^verbatim>\<open>baseByRole\<close>, built from \<open>uid\<close> at each call, read at key \<open>role\<close>.\<close>

definition baseByRole :: "string \<Rightarrow> string \<Rightarrow> property" where
  "baseByRole uid role =
     (if role = ''student'' then
        PrefixArray [''users/students/'' @ uid @ ''/'', ''projects/student-projects/'']
      else if role = ''faculty'' then
        PrefixArray [''users/faculty/'' @ uid @ ''/'', ''projects/research-projects/'']
      else if role = ''mentor'' then
        PrefixArray [''users/mentors/'' @ uid @ ''/'']
      else if role = ''startup'' then
        PrefixArray [''users/startups/'' @ uid @ ''/'', ''projects/startup-projects/'']
      else if role = ''admin'' then
        PrefixArray [''users/admins/'' @ uid @ ''/'', ''projects/'', ''users/'']
      else if role \<in> set objectPrototypeKeys then Inherited
      else Undefined)"

text \<open>Legacy prefixes kept for compatibility while migrating paths.\<close>

definition legacy :: "string \<Rightarrow> string list" where
  "legacy uid =
     [''profile-pictures/'' @ uid @ ''/'',
      ''id-documents/'' @ uid @ ''/'',
      ''enrollments/'' @ uid @ ''/'',
      ''project-files/'']"

text \<open>
  \<^verbatim>\<open>[ ...(baseByRole[role] || []), ...legacy ]\<close>: an undefined entry falls back to the
  empty array; spreading an inherited member raises a \<^verbatim>\<open>TypeError\<close>.
\<close>

definition allowedPrefixes :: "string \<Rightarrow> string \<Rightarrow> js_error + string list" where
  "allowedPrefixes role uid =
     (case baseByRole uid role of
        Undefined \<Rightarrow> Inr ([] @ legacy uid)
      | PrefixArray ps \<Rightarrow> Inr (ps @ legacy uid)
      | Inherited \<Rightarrow> Inl TypeError)"

definition isPathAllowedForRole :: "string \<Rightarrow> string \<Rightarrow> string \<Rightarrow> js_error + bool" where
  "isPathAllowedForRole role uid objectPath =
     (case allowedPrefixes role uid of
        Inl e \<Rightarrow> Inl e
      | Inr ps \<Rightarrow>
          (let hasAllowedPrefix = some ps (\<lambda>p. startsWith objectPath p) in
           if \<not> hasAllowedPrefix then Inr False
           else
             (let includesUid = includes_str objectPath uid in
              if role \<noteq> ''admin'' \<and> \<not> includesUid then Inr False
              else Inr True)))"

section \<open>Signed-URL issuance\<close>

text \<open>
  A value of a parsed JSON request body, as far as the handlers look at it: its
  truthiness and whether it is a string. \<open>JObject\<close> stands for every array and object;
  a number is kept as an integer (only being zero matters).
\<close>

datatype jsval = JUndefined | JNull | JBool bool | JNum int | JStr string | JObject

fun truthy :: "jsval \<Rightarrow> bool" where
  "truthy JUndefined = False"
| "truthy JNull = False"
| "truthy (JBool b) = b"
| "truthy (JNum n) = (n \<noteq> 0)"
| "truthy (JStr s) = (s \<noteq> [])"
| "truthy JObject = True"

text \<open>
  The engine called with whatever the body held: on anything but a string,
  \<^verbatim>\<open>objectPath.startsWith\<close> is not a function and the call raises.
\<close>

fun isPathAllowedForRoleJs :: "string \<Rightarrow> string \<Rightarrow> jsval \<Rightarrow> js_error + bool" where
  "isPathAllowedForRoleJs role uid (JStr objectPath) = isPathAllowedForRole role uid objectPath"
| "isPathAllowedForRoleJs role uid v = Inl TypeError"

text \<open>
  The outcome of reading the document \<^verbatim>\<open>users/{uid}\<close>: the read fails, the document does
  not exist, or it exists with or without a \<open>role\<close> field (stored as a string).
\<close>

datatype snapshot = ReadFailed | NoDocument | Document "string option"

text \<open>\<^verbatim>\<open>getUserRole\<close>: falls back to \<open>student\<close> when the role is missing, empty or
  cannot be read.\<close>

fun getUserRole :: "(string \<Rightarrow> snapshot) \<Rightarrow> string \<Rightarrow> string" where
  "getUserRole firestore uid =
     (case firestore uid of
        ReadFailed \<Rightarrow> ''student''
      | NoDocument \<Rightarrow> ''student''
      | Document None \<Rightarrow> ''student''
      | Document (Some role) \<Rightarrow> (if role = [] then ''student'' else role))"

datatype action = Write | Read

text \<open>One call of \<^verbatim>\<open>storage.bucket(b).file(p).getSignedUrl({...})\<close>; the write variant
  passes a content type, the read variant does not.\<close>

record sign_request =
  sign_bucket :: string
  sign_file :: jsval
  sign_action :: action
  sign_expires :: int
  sign_contentType :: "jsval option"

datatype body = Error string | Url string

record response =
  status :: nat
  json :: body

text \<open>
  What a handler run depends on: the \<^verbatim>\<open>BUCKET_NAME\<close> variable, the document store, the
  signing service (\<open>None\<close> when it rejects) and the clock \<^verbatim>\<open>Date.now()\<close>.
\<close>

record env =
  bucketName :: "string option"
  firestore :: "string \<Rightarrow> snapshot"
  getSignedUrl :: "sign_request \<Rightarrow> string option"
  now :: int

text \<open>The request after \<^verbatim>\<open>verifyAuth\<close>: the two body fields and \<^verbatim>\<open>req.user?.uid\<close>.\<close>

record request =
  body_objectPath :: jsval
  body_contentType :: jsval
  user_uid :: "string option"

definition reply :: "nat \<Rightarrow> string \<Rightarrow> response" where
  "reply code msg = \<lparr>status = code, json = Error msg\<rparr>"

text \<open>
  \<^verbatim>\<open>POST /signed-url\<close>. The result is the response sent and the list of signing calls
  made on the storage service.
\<close>

definition signedUrl :: "env \<Rightarrow> request \<Rightarrow> response \<times> sign_request list" where
  "signedUrl e req =
     (case bucketName e of
        None \<Rightarrow> (reply 500 ''BUCKET_NAME env var not set'', [])
      | Some b \<Rightarrow>
        if b = [] then (reply 500 ''BUCKET_NAME env var not set'', [])
        else if \<not> truthy (body_objectPath req) \<or> \<not> truthy (body_contentType req) then
          (reply 400 ''objectPath and contentType are required'', [])
        else
          (case user_uid req of
             None \<Rightarrow> (reply 401 ''Unauthenticated'', [])
           | Some uid \<Rightarrow>
             if uid = [] then (reply 401 ''Unauthenticated'', [])
             else
               (let role = getUserRole (firestore e) uid in
                case isPathAllowedForRoleJs role uid (body_objectPath req) of
                  Inl err \<Rightarrow> (reply 500 ''Failed to create signed URL'', [])
                | Inr False \<Rightarrow> (reply 403 ''Upload path not allowed for your role'', [])
                | Inr True \<Rightarrow>
                    (let rq = \<lparr>sign_bucket = b, sign_file = body_objectPath req,
                               sign_action = Write, sign_expires = now e + 5 * 60 * 1000,
                               sign_contentType = Some (body_contentType req)\<rparr> in
                     case getSignedUrl e rq of
                       None \<Rightarrow> (reply 500 ''Failed to create signed URL'', [rq])
                     | Some url \<Rightarrow> (\<lparr>status = 200, json = Url url\<rparr>, [rq])))))"

text \<open>\<^verbatim>\<open>POST /signed-url-read\<close>.\<close>

definition signedUrlRead :: "env \<Rightarrow> request \<Rightarrow> response \<times> sign_request list" where
  "signedUrlRead e req =
     (case bucketName e of
        None \<Rightarrow> (reply 500 ''BUCKET_NAME env var not set'', [])
      | Some b \<Rightarrow>
        if b = [] then (reply 500 ''BUCKET_NAME env var not set'', [])
        else if \<not> truthy (body_objectPath req) then
          (reply 400 ''objectPath is required'', [])
        else
          (case user_uid req of
             None \<Rightarrow> (reply 401 ''Unauthenticated'', [])
           | Some uid \<Rightarrow>
             if uid = [] then (reply 401 ''Unauthenticated'', [])
             else
               (let role = getUserRole (firestore e) uid in
                case isPathAllowedForRoleJs role uid (body_objectPath req) of
                  Inl err \<Rightarrow> (reply 500 ''Failed to create signed read URL'', [])
                | Inr False \<Rightarrow> (reply 403 ''Read path not allowed for your role'', [])
                | Inr True \<Rightarrow>
                    (let rq = \<lparr>sign_bucket = b, sign_file = body_objectPath req,
                               sign_action = Read, sign_expires = now e + 5 * 60 * 1000,
                               sign_contentType = None\<rparr> in
                     case getSignedUrl e rq of
                       None \<Rightarrow> (reply 500 ''Failed to create signed read URL'', [rq])
                     | Some url \<Rightarrow> (\<lparr>status = 200, json = Url url\<rparr>, [rq])))))"

section \<open>String primitives: what they compute\<close>

lemma startsWith_iff: "startsWith s p \<longleftrightarrow> (\<exists>r. s = p @ r)"
  by (induction s p rule: startsWith.induct) auto

lemma includes_iff: "includes_str s u \<longleftrightarrow> (\<exists>a b. s = a @ u @ b)"
proof (induction s)
  case Nil
  show ?case by (simp add: startsWith_iff)
next
  case (Cons c s)
  show ?case
  proof
    assume "includes_str (c # s) u"
    then consider "startsWith (c # s) u" | "includes_str s u" by auto
    then show "\<exists>a b. c # s = a @ u @ b"
    proof cases
      case 1
      then obtain r where "c # s = u @ r" by (auto simp: startsWith_iff)
      then have "c # s = [] @ u @ r" by simp
      then show ?thesis by blast
    next
      case 2
      then obtain a b where "s = a @ u @ b" using Cons.IH by blast
      then have "c # s = (c # a) @ u @ b" by simp
      then show ?thesis by blast
    qed
  next
    assume "\<exists>a b. c # s = a @ u @ b"
    then obtain a b where ab: "c # s = a @ u @ b" by blast
    show "includes_str (c # s) u"
    proof (cases a)
      case Nil
      with ab have "startsWith (c # s) u" by (auto simp: startsWith_iff)
      then show ?thesis by simp
    next
      case (Cons d a')
      with ab have "s = a' @ u @ b" by simp
      then have "includes_str s u" using Cons.IH by blast
      then show ?thesis by simp
    qed
  qed
qed

lemma some_iff: "some xs f \<longleftrightarrow> (\<exists>x\<in>set xs. f x)"
  by (induction xs) auto

lemma startsWith_append: "startsWith (p @ r) p"
  by (simp add: startsWith_iff)

lemma startsWith_shorter: "startsWith s (a @ b) \<Longrightarrow> startsWith s a"
  by (auto simp: startsWith_iff)

lemma includes_middle: "includes_str (a @ u @ b) u"
  unfolding includes_iff by blast

lemma startsWith_trans: "startsWith s a \<Longrightarrow> startsWith a b \<Longrightarrow> startsWith s b"
  by (auto simp: startsWith_iff)

section \<open>The engine as a formula\<close>

text \<open>
  When the prefix list can be built, the engine returns the conjunction of the two
  checks; when it cannot, it raises.
\<close>

lemma isPathAllowedForRole_eq:
  "isPathAllowedForRole r u p =
     (case allowedPrefixes r u of
        Inl e \<Rightarrow> Inl e
      | Inr ps \<Rightarrow> Inr ((\<exists>P\<in>set ps. startsWith p P) \<and> (r = ''admin'' \<or> includes_str p u)))"
  by (auto simp: isPathAllowedForRole_def some_iff Let_def split: sum.splits)

lemma allowedPrefixes_student:
  "allowedPrefixes ''student'' u =
     Inr ([''users/students/'' @ u @ ''/'', ''projects/student-projects/''] @ legacy u)"
  by (simp add: allowedPrefixes_def baseByRole_def)

lemma allowedPrefixes_admin:
  "allowedPrefixes ''admin'' u =
     Inr ([''users/admins/'' @ u @ ''/'', ''projects/'', ''users/''] @ legacy u)"
  by (simp add: allowedPrefixes_def baseByRole_def)

lemma allowedPrefixes_inherited:
  "r \<in> set objectPrototypeKeys \<Longrightarrow> allowedPrefixes r u = Inl TypeError"
  by (auto simp: allowedPrefixes_def baseByRole_def objectPrototypeKeys_def)

lemma allowedPrefixes_unknown:
  "r \<notin> set [''student'', ''faculty'', ''mentor'', ''startup'', ''admin''] \<Longrightarrow>
   r \<notin> set objectPrototypeKeys \<Longrightarrow> allowedPrefixes r u = Inr (legacy u)"
  by (simp add: allowedPrefixes_def baseByRole_def)

text \<open>The three ways a role string can fall: inherited member, own entry, no entry.\<close>

lemma allowedPrefixes_cases:
  "allowedPrefixes r u = Inl TypeError \<and> r \<in> set objectPrototypeKeys \<or>
   (\<exists>ps. baseByRole u r = PrefixArray ps \<and> allowedPrefixes r u = Inr (ps @ legacy u)
      \<and> r \<in> set [''student'', ''faculty'', ''mentor'', ''startup'', ''admin'']) \<or>
   allowedPrefixes r u = Inr (legacy u) \<and> baseByRole u r = Undefined"
  by (simp add: allowedPrefixes_def baseByRole_def)

text \<open>Every prefix of every role lies under one of the admin prefixes or is a legacy one.\<close>

lemma admin_covers:
  assumes "allowedPrefixes r u = Inr ps" and "P \<in> set ps" and "startsWith p P"
  shows "\<exists>Q\<in>set ([''users/admins/'' @ u @ ''/'', ''projects/'', ''users/''] @ legacy u).
           startsWith p Q"
  using assms
  by (auto simp: allowedPrefixes_def baseByRole_def legacy_def startsWith_iff split: if_splits)

section \<open>Non-admin roles\<close>

text \<open>
  For a role string other than admin, a \<open>true\<close> answer means that the path starts with
  one of the role's allowed prefixes (its own ones followed by the legacy ones) and
  contains the uid. So a path that does not contain the uid is never allowed; and
  whenever the prefix list can be built, that is for each of the roles student,
  faculty, mentor and startup and for every other string that is not the name of an
  inherited member, the answer is then \<open>false\<close>.
\<close>

lemma non_admin_true_needs_prefix_and_uid:
  "r \<noteq> ''admin'' \<longrightarrow>
     (isPathAllowedForRole r u p = Inr True \<longrightarrow>
        (\<exists>ps. allowedPrefixes r u = Inr ps \<and> (\<exists>P\<in>set ps. startsWith p P)) \<and> includes_str p u)
     \<and> (\<not> includes_str p u \<longrightarrow> isPathAllowedForRole r u p \<noteq> Inr True)
     \<and> (\<not> includes_str p u \<and> r \<notin> set objectPrototypeKeys \<longrightarrow>
          isPathAllowedForRole r u p = Inr False)"
  using allowedPrefixes_cases [of r u]
  by (auto simp: isPathAllowedForRole_eq split: sum.splits)

text \<open>
  Two denials of a mentor \<open>u1\<close>: another mentor's file, refused by the prefix test, and a
  legacy project file of another user, which passes the prefix test and is refused by
  the uid test.
\<close>

lemma mentor_uid_mismatch_denied:
  "isPathAllowedForRole ''mentor'' ''u1'' ''users/mentors/u2/file.pdf'' = Inr False
   \<and> startsWith ''project-files/p1/u2/a.pdf'' ''project-files/''
   \<and> \<not> includes_str ''project-files/p1/u2/a.pdf'' ''u1''
   \<and> isPathAllowedForRole ''mentor'' ''u1'' ''project-files/p1/u2/a.pdf'' = Inr False"
  by (simp add: isPathAllowedForRole_def allowedPrefixes_def baseByRole_def legacy_def)

text \<open>
  Claim C2. For each of the roles student, faculty, mentor and startup, a non-empty
  uid \<open>u\<close> and a prefix \<open>P\<close> of the role's allowed list, the path \<open>P + u + "/x"\<close> is allowed.
  In particular student \<open>u1\<close> is allowed \<^verbatim>\<open>users/students/u1/resume.pdf\<close>.
\<close>

theorem own_prefix_then_uid_allowed:
  "(r \<in> set [''student'', ''faculty'', ''mentor'', ''startup''] \<and> u \<noteq> [] \<and>
    allowedPrefixes r u = Inr ps \<and> P \<in> set ps \<longrightarrow>
      isPathAllowedForRole r u (P @ u @ ''/x'') = Inr True)
   \<and> isPathAllowedForRole ''student'' ''u1'' ''users/students/u1/resume.pdf'' = Inr True"
proof -
  have "isPathAllowedForRole r u (P @ u @ ''/x'') = Inr True"
    if "allowedPrefixes r u = Inr ps" "P \<in> set ps"
    using that startsWith_append [of P "u @ ''/x''"] includes_middle [of P u "''/x''"]
    by (auto simp: isPathAllowedForRole_eq)
  moreover
  have "isPathAllowedForRole ''student'' ''u1'' ''users/students/u1/resume.pdf'' = Inr True"
    by (simp add: isPathAllowedForRole_def allowedPrefixes_def baseByRole_def legacy_def)
  ultimately show ?thesis by auto
qed

theorem own_prefix_then_uid_allowed_witness:
  "''faculty'' \<in> set [''student'', ''faculty'', ''mentor'', ''startup''] \<and> ''u7'' \<noteq> [] \<and>
   allowedPrefixes ''faculty'' ''u7'' =
     Inr [''users/faculty/u7/'', ''projects/research-projects/'', ''profile-pictures/u7/'',
          ''id-documents/u7/'', ''enrollments/u7/'', ''project-files/''] \<and>
   ''projects/research-projects/'' \<in> set [''users/faculty/u7/'', ''projects/research-projects/'',
          ''profile-pictures/u7/'', ''id-documents/u7/'', ''enrollments/u7/'', ''project-files/''] \<and>
   isPathAllowedForRole ''faculty'' ''u7'' ''projects/research-projects/u7/x'' = Inr True"
  using own_prefix_then_uid_allowed
          [of "''faculty''" "''u7''"
              "[''users/faculty/u7/'', ''projects/research-projects/'', ''profile-pictures/u7/'',
               ''id-documents/u7/'', ''enrollments/u7/'', ''project-files/'']"
              "''projects/research-projects/''"]
  by (simp add: allowedPrefixes_def baseByRole_def legacy_def)

text \<open>
  Claim C5. Student \<open>u1\<close> is denied \<^verbatim>\<open>projects/research-projects/u1/file.pdf\<close>: the
  research root belongs to the faculty entry, and no student or legacy prefix matches,
  although the path contains the uid.
\<close>

theorem student_research_root_denied:
  "isPathAllowedForRole ''student'' ''u1'' ''projects/research-projects/u1/file.pdf'' = Inr False"
  by (simp add: isPathAllowedForRole_def allowedPrefixes_def baseByRole_def legacy_def)

text \<open>
  Claim C6. The uid check is substring containment: under the student project root a
  student is allowed every path in which the uid occurs anywhere, whatever surrounds
  it. In particular student \<open>u1\<close> is allowed
  \<^verbatim>\<open>projects/student-projects/other123_u1/data\<close>, where \<open>u1\<close> is only the tail of a segment.
\<close>

theorem uid_check_is_substring:
  "isPathAllowedForRole ''student'' u (''projects/student-projects/'' @ a @ u @ b) = Inr True
   \<and> isPathAllowedForRole ''student'' ''u1'' ''projects/student-projects/other123_u1/data''
       = Inr True"
proof -
  have "isPathAllowedForRole ''student'' u (''projects/student-projects/'' @ a @ u @ b) = Inr True"
    using startsWith_append [of "''projects/student-projects/''" "a @ u @ b"]
          includes_middle [of "''projects/student-projects/'' @ a" u b]
    by (simp add: isPathAllowedForRole_eq allowedPrefixes_student)
  moreover
  have "isPathAllowedForRole ''student'' ''u1'' ''projects/student-projects/other123_u1/data''
          = Inr True"
    by (simp add: isPathAllowedForRole_def allowedPrefixes_def baseByRole_def legacy_def)
  ultimately show ?thesis by simp
qed

section \<open>The admin role\<close>

text \<open>
  Claim C3, as stated: admin is allowed a path exactly when it starts with one of the
  three prefixes of the admin entry. The legacy prefixes are appended for admin as for
  every role, so a path under \<^verbatim>\<open>project-files/\<close> is allowed without starting with any of
  the three.
\<close>

theorem admin_configured_prefixes_only_counterexample:
  "isPathAllowedForRole ''admin'' ''anyone'' ''project-files/x'' = Inr True
   \<and> \<not> startsWith ''project-files/x'' (''users/admins/'' @ ''anyone'' @ ''/'')
   \<and> \<not> startsWith ''project-files/x'' ''projects/''
   \<and> \<not> startsWith ''project-files/x'' ''users/''"
  by (simp add: isPathAllowedForRole_def allowedPrefixes_def baseByRole_def legacy_def)

text \<open>
  Claim C3, amended. For every uid and path, containing the uid or not, admin is allowed
  the path exactly when it starts with one of the three admin prefixes or with one of
  the four legacy prefixes, and is denied otherwise. In particular admin \<open>anyone\<close> is
  allowed \<^verbatim>\<open>users/students/u9/x\<close>, through \<^verbatim>\<open>users/\<close>.
\<close>

theorem admin_allowed_iff_prefix:
  "isPathAllowedForRole ''admin'' u p =
     Inr (\<exists>P\<in>set ([''users/admins/'' @ u @ ''/'', ''projects/'', ''users/''] @ legacy u).
            startsWith p P)
   \<and> isPathAllowedForRole ''admin'' ''anyone'' ''users/students/u9/x'' = Inr True"
proof -
  have "isPathAllowedForRole ''admin'' ''anyone'' ''users/students/u9/x'' = Inr True"
    by (simp add: isPathAllowedForRole_def allowedPrefixes_def baseByRole_def legacy_def)
  then show ?thesis
    by (simp add: isPathAllowedForRole_eq allowedPrefixes_admin)
qed

theorem admin_allowed_iff_prefix_witness:
  "isPathAllowedForRole ''admin'' ''a1'' ''enrollments/a1/form.pdf'' = Inr True
   \<and> isPathAllowedForRole ''admin'' ''a1'' ''enrollments/b2/form.pdf'' = Inr False
   \<and> isPathAllowedForRole ''admin'' ''a1'' ''projects/any/b2'' = Inr True"
  using admin_allowed_iff_prefix [of "''a1''" "''enrollments/a1/form.pdf''"]
        admin_allowed_iff_prefix [of "''a1''" "''enrollments/b2/form.pdf''"]
        admin_allowed_iff_prefix [of "''a1''" "''projects/any/b2''"]
  by (simp add: legacy_def)

text \<open>
  Claim C10. Whatever any role is allowed, admin is allowed too, for the same uid and
  path.
\<close>

theorem admin_dominates:
  "isPathAllowedForRole r u p = Inr True \<Longrightarrow> isPathAllowedForRole ''admin'' u p = Inr True"
proof -
  assume "isPathAllowedForRole r u p = Inr True"
  then obtain ps P where "allowedPrefixes r u = Inr ps" "P \<in> set ps" "startsWith p P"
    by (auto simp: isPathAllowedForRole_eq split: sum.splits)
  then have "\<exists>Q\<in>set ([''users/admins/'' @ u @ ''/'', ''projects/'', ''users/''] @ legacy u).
               startsWith p Q"
    by (rule admin_covers)
  then show ?thesis
    by (simp add: isPathAllowedForRole_eq allowedPrefixes_admin)
qed

theorem admin_dominates_witness:
  "isPathAllowedForRole ''mentor'' ''m4'' ''users/mentors/m4/cv.pdf'' = Inr True
   \<and> isPathAllowedForRole ''admin'' ''m4'' ''users/mentors/m4/cv.pdf'' = Inr True"
proof -
  have h: "isPathAllowedForRole ''mentor'' ''m4'' ''users/mentors/m4/cv.pdf'' = Inr True"
    by (simp add: isPathAllowedForRole_def allowedPrefixes_def baseByRole_def legacy_def)
  from h admin_dominates [OF h] show ?thesis by simp
qed

section \<open>Role strings that name an inherited member\<close>

text \<open>
  The read \<^verbatim>\<open>baseByRole[role]\<close> also finds the members every object inherits. For such a
  role the fallback \<^verbatim>\<open>|| []\<close> is not taken and the spread raises, whatever the path.
\<close>

lemma inherited_role_raises:
  "r \<in> set objectPrototypeKeys \<Longrightarrow> isPathAllowedForRole r u p = Inl TypeError"
  by (simp add: isPathAllowedForRole_def allowedPrefixes_inherited)

text \<open>
  Claim C1 says that for every role other than admin a path that does not contain the
  uid gets the answer \<open>false\<close>. For the role string \<open>__proto__\<close> and a path without the
  uid the engine raises instead of answering \<open>false\<close>.
\<close>

theorem uid_missing_inherited_role_raises:
  "''__proto__'' \<noteq> ''admin''
   \<and> \<not> includes_str ''project-files/p1/u2/a.pdf'' ''u1''
   \<and> isPathAllowedForRole ''__proto__'' ''u1'' ''project-files/p1/u2/a.pdf'' = Inl TypeError
   \<and> isPathAllowedForRole ''__proto__'' ''u1'' ''project-files/p1/u2/a.pdf'' \<noteq> Inr False"
  by (simp add: isPathAllowedForRole_def allowedPrefixes_def baseByRole_def
        objectPrototypeKeys_def)

text \<open>
  Claim C4 says that every role string is allowed a path under \<^verbatim>\<open>project-files/\<close> that
  contains the uid. For the role string \<open>constructor\<close> the engine raises on such a path
  instead of answering \<open>true\<close>.
\<close>

theorem legacy_project_files_inherited_role_raises:
  "startsWith ''project-files/p1/u1/a.pdf'' ''project-files/''
   \<and> includes_str ''project-files/p1/u1/a.pdf'' ''u1''
   \<and> isPathAllowedForRole ''constructor'' ''u1'' ''project-files/p1/u1/a.pdf'' = Inl TypeError"
  by (simp add: isPathAllowedForRole_def allowedPrefixes_def baseByRole_def
        objectPrototypeKeys_def)

text \<open>For every other role string, admin and unknown ones included, the answer is \<open>true\<close>.\<close>

lemma legacy_project_files_allowed:
  "r \<notin> set objectPrototypeKeys \<Longrightarrow> startsWith p ''project-files/'' \<Longrightarrow> includes_str p u \<Longrightarrow>
   isPathAllowedForRole r u p = Inr True"
  using allowedPrefixes_cases [of r u]
  by (auto simp: isPathAllowedForRole_eq legacy_def)

text \<open>
  Claim C7 says that a role string outside the five roles is allowed a path exactly when
  the path starts with a legacy prefix and contains the uid. For the role string
  \<open>toString\<close> the engine raises on such a path instead of answering \<open>true\<close>.
\<close>

theorem unknown_role_inherited_raises:
  "''toString'' \<notin> set [''student'', ''faculty'', ''mentor'', ''startup'', ''admin'']
   \<and> startsWith ''enrollments/u1/form.pdf'' (''enrollments/'' @ ''u1'' @ ''/'')
   \<and> includes_str ''enrollments/u1/form.pdf'' ''u1''
   \<and> isPathAllowedForRole ''toString'' ''u1'' ''enrollments/u1/form.pdf'' = Inl TypeError"
  by (simp add: isPathAllowedForRole_def allowedPrefixes_def baseByRole_def
        objectPrototypeKeys_def)

text \<open>For every other role string outside the five roles, the answer is as claimed.\<close>

lemma unknown_role_only_legacy:
  "r \<notin> set [''student'', ''faculty'', ''mentor'', ''startup'', ''admin''] \<Longrightarrow>
   r \<notin> set objectPrototypeKeys \<Longrightarrow>
   isPathAllowedForRole r u p =
     Inr ((\<exists>P\<in>set (legacy u). startsWith p P) \<and> includes_str p u)"
  by (simp add: isPathAllowedForRole_eq allowedPrefixes_unknown)

section \<open>The two handlers\<close>

text \<open>A signing call is made only after the engine has answered \<open>true\<close>.\<close>

lemma signedUrl_signs_only_allowed:
  "snd (signedUrl e req) \<noteq> [] \<Longrightarrow>
   \<exists>uid. user_uid req = Some uid \<and>
     isPathAllowedForRoleJs (getUserRole (firestore e) uid) uid (body_objectPath req) = Inr True"
  by (auto simp: signedUrl_def Let_def split: option.splits if_splits sum.splits bool.splits)

lemma signedUrlRead_signs_only_allowed:
  "snd (signedUrlRead e req) \<noteq> [] \<Longrightarrow>
   \<exists>uid. user_uid req = Some uid \<and>
     isPathAllowedForRoleJs (getUserRole (firestore e) uid) uid (body_objectPath req) = Inr True"
  by (auto simp: signedUrlRead_def Let_def split: option.splits if_splits sum.splits bool.splits)

text \<open>
  Claim C8. Let the engine answer \<open>false\<close> for the caller's role, uid and the requested
  path. Then neither handler makes a signing call; and a request that gets as far as the
  check (bucket configured, required body fields present, caller identified) is answered
  403 with the handler's fixed message: \<^verbatim>\<open>Upload path not allowed for your role\<close> for
  \<^verbatim>\<open>/signed-url\<close>, \<^verbatim>\<open>Read path not allowed for your role\<close> for \<^verbatim>\<open>/signed-url-read\<close>.
\<close>

theorem denied_path_403_without_signing:
  "user_uid req = Some uid \<and>
   isPathAllowedForRoleJs (getUserRole (firestore e) uid) uid (body_objectPath req) = Inr False \<longrightarrow>
     snd (signedUrl e req) = [] \<and> snd (signedUrlRead e req) = [] \<and>
     (bucketName e = Some b \<and> b \<noteq> [] \<and> truthy (body_objectPath req) \<and>
      truthy (body_contentType req) \<and> uid \<noteq> [] \<longrightarrow>
        signedUrl e req = (reply 403 ''Upload path not allowed for your role'', [])) \<and>
     (bucketName e = Some b \<and> b \<noteq> [] \<and> truthy (body_objectPath req) \<and> uid \<noteq> [] \<longrightarrow>
        signedUrlRead e req = (reply 403 ''Read path not allowed for your role'', []))"
proof (intro impI conjI; elim conjE)
  assume u: "user_uid req = Some uid"
    and d: "isPathAllowedForRoleJs (getUserRole (firestore e) uid) uid (body_objectPath req)
              = Inr False"
  show "snd (signedUrl e req) = []"
    using signedUrl_signs_only_allowed [of e req] u d by fastforce
  show "snd (signedUrlRead e req) = []"
    using signedUrlRead_signs_only_allowed [of e req] u d by fastforce
  show "signedUrl e req = (reply 403 ''Upload path not allowed for your role'', [])"
    if "bucketName e = Some b" "b \<noteq> []" "truthy (body_objectPath req)"
       "truthy (body_contentType req)" "uid \<noteq> []"
    using that u d by (simp add: signedUrl_def Let_def)
  show "signedUrlRead e req = (reply 403 ''Read path not allowed for your role'', [])"
    if "bucketName e = Some b" "b \<noteq> []" "truthy (body_objectPath req)" "uid \<noteq> []"
    using that u d by (simp add: signedUrlRead_def Let_def)
qed

text \<open>Mentor \<open>u1\<close> asking either handler for another mentor's file.\<close>

theorem denied_path_403_without_signing_witness:
  "signedUrl
     \<lparr>bucketName = Some ''bkt'', firestore = (\<lambda>_. Document (Some ''mentor'')),
      getSignedUrl = (\<lambda>_. Some ''https://signed''), now = 0\<rparr>
     \<lparr>body_objectPath = JStr ''users/mentors/u2/file.pdf'',
      body_contentType = JStr ''application/pdf'', user_uid = Some ''u1''\<rparr>
   = (\<lparr>status = 403, json = Error ''Upload path not allowed for your role''\<rparr>, [])
   \<and> signedUrlRead
     \<lparr>bucketName = Some ''bkt'', firestore = (\<lambda>_. Document (Some ''mentor'')),
      getSignedUrl = (\<lambda>_. Some ''https://signed''), now = 0\<rparr>
     \<lparr>body_objectPath = JStr ''users/mentors/u2/file.pdf'',
      body_contentType = JStr ''application/pdf'', user_uid = Some ''u1''\<rparr>
   = (\<lparr>status = 403, json = Error ''Read path not allowed for your role''\<rparr>, [])"
proof -
  have d: "isPathAllowedForRoleJs ''mentor'' ''u1'' (JStr ''users/mentors/u2/file.pdf'')
             = Inr False"
    by (simp add: isPathAllowedForRole_def allowedPrefixes_def baseByRole_def legacy_def)
  show ?thesis
    using d denied_path_403_without_signing
          [of "\<lparr>body_objectPath = JStr ''users/mentors/u2/file.pdf'',
                body_contentType = JStr ''application/pdf'', user_uid = Some ''u1''\<rparr>"
              "''u1''"
              "\<lparr>bucketName = Some ''bkt'', firestore = (\<lambda>_. Document (Some ''mentor'')),
                getSignedUrl = (\<lambda>_. Some ''https://signed''), now = 0\<rparr>"
              "''bkt''"]
    by (simp add: reply_def)
qed

end
